theory Spec2Isabelle
  imports Complex_Main "HOL-Library.Word" "HOL-Library.Log_Nat"
begin

section \<open>JavaScript numbers\<close>

text \<open>
  Every \<^verbatim>\<open>number\<close> of the analyzer is an IEEE-754 binary64 value. The finite ones are
  modelled as rationals, and every arithmetic operation of the source rounds its exact
  result to the nearest binary64 value, ties to even (\<open>fl\<close>): 53 significant bits for
  normal values, a fixed spacing of \<open>2 powi (- 1074)\<close> for subnormal ones.

  Not modelled: \<open>NaN\<close>, the infinities and the sign of zero (the fields of a configuration
  are finite numbers, and no operation of the analyzer overflows once validation has
  passed with \<open>rows\<close> and \<open>columns\<close> at least 1), and the limits of the engine on the
  length of an array and on memory (arrays are lists of any length).
\<close>

type_synonym number = rat

definition ilog2 :: "rat \<Rightarrow> int" where
  \<comment> \<open>the binary exponent of a positive number: \<open>2 powi (ilog2 x) \<le> x < 2 powi (ilog2 x + 1)\<close>\<close>
  "ilog2 x =
     (let k = bitlen (fst (quotient_of x)) - bitlen (snd (quotient_of x))
      in if 2 powi k \<le> x then k else k - 1)"

definition round_even :: "rat \<Rightarrow> int" where
  \<comment> \<open>the nearest integer, a tie going to the even neighbour\<close>
  "round_even m =
     (let n = \<lfloor>m\<rfloor>; d = m - of_int n
      in if d < 1 / 2 then n
         else if 1 / 2 < d then n + 1
         else if even n then n else n + 1)"

definition fl :: "rat \<Rightarrow> number" where
  "fl x =
     (if x = 0 then 0
      else let e = max (ilog2 \<bar>x\<bar> - 52) (- 1074)
           in of_int (round_even (x / 2 powi e)) * 2 powi e)"

definition jadd :: "number \<Rightarrow> number \<Rightarrow> number" where
  "jadd a b = fl (a + b)"

definition jmul :: "number \<Rightarrow> number \<Rightarrow> number" where
  "jmul a b = fl (a * b)"

definition jdiv :: "number \<Rightarrow> number \<Rightarrow> number" where
  \<comment> \<open>the analyzer divides by \<open>rows\<close> and \<open>columns\<close> only, after validation has found them positive\<close>
  "jdiv a b = fl (a / b)"

definition Math_floor :: "number \<Rightarrow> number" where
  "Math_floor x = of_int \<lfloor>x\<rfloor>"

section \<open>Data model (types.ts)\<close>

record FrameAnalyzerConfig =
  offsetX :: number
  offsetY :: number
  windowWidth :: number
  windowHeight :: number
  rows :: number
  columns :: number
  threshold :: "number option"

text \<open>
  \<^verbatim>\<open>ImageData\<close>: \<open>width\<close> and \<open>height\<close> are unsigned integers, \<open>data\<close> is a
  \<^verbatim>\<open>Uint8ClampedArray\<close> of interleaved red, green, blue and alpha samples.
\<close>

record ImageData =
  width :: nat
  height :: nat
  data :: "8 word list"

record FrameAnalysisResult =
  matrix :: "bool list list"
  config :: FrameAnalyzerConfig
  timestamp :: number

text \<open>
  The five validation failures are thrown as \<^verbatim>\<open>Error\<close> objects that differ in their
  message; the constructors carry the names the specification gives them.
  \<open>TypeError\<close> is what the runtime throws for a write through \<^verbatim>\<open>undefined\<close>.
\<close>

datatype error =
    InvalidOffset        \<comment> \<open>'Offset coordinates must be non-negative'\<close>
  | InvalidWindowSize    \<comment> \<open>'Window dimensions must be positive'\<close>
  | InvalidMatrixSize    \<comment> \<open>'Matrix dimensions must be positive'\<close>
  | WindowOutOfBounds    \<comment> \<open>'Sampling window exceeds image boundaries'\<close>
  | InvalidThreshold     \<comment> \<open>'Threshold must be between 0 and 255'\<close>
  | TypeError            \<comment> \<open>Cannot set properties of undefined\<close>

section \<open>The analyzer (analyzer.ts)\<close>

definition calculateBrightness :: "number \<Rightarrow> number \<Rightarrow> number \<Rightarrow> number" where
  "calculateBrightness r g b =
     jadd (jadd (jmul (fl (2126 / 10000)) r) (jmul (fl (7152 / 10000)) g))
          (jmul (fl (722 / 10000)) b)"

definition element :: "8 word list \<Rightarrow> number \<Rightarrow> number option" where
  \<comment> \<open>\<^verbatim>\<open>data[i]\<close> on a typed array: \<^verbatim>\<open>undefined\<close> unless \<open>i\<close> is an integer index below the length\<close>
  "element d i =
     (if of_int \<lfloor>i\<rfloor> = i \<and> 0 \<le> i \<and> nat \<lfloor>i\<rfloor> < length d
      then Some (of_nat (unat (d ! nat \<lfloor>i\<rfloor>))) else None)"

definition nullish :: "number option \<Rightarrow> number \<Rightarrow> number" where
  \<comment> \<open>\<^verbatim>\<open>v ?? dflt\<close>\<close>
  "nullish v dflt = (case v of None \<Rightarrow> dflt | Some x \<Rightarrow> x)"

definition pixelIndex :: "ImageData \<Rightarrow> number \<Rightarrow> number \<Rightarrow> number" where
  "pixelIndex imageData x y =
     jmul (jadd (jmul (Math_floor y) (of_nat (width imageData))) (Math_floor x)) 4"

definition getPixelAt :: "ImageData \<Rightarrow> number \<Rightarrow> number \<Rightarrow> number \<times> number \<times> number" where
  "getPixelAt imageData x y =
     (let index = pixelIndex imageData x y
      in (nullish (element (data imageData) index) 0,
          nullish (element (data imageData) (jadd index 1)) 0,
          nullish (element (data imageData) (jadd index 2)) 0))"

definition validateConfig :: "FrameAnalyzerConfig \<Rightarrow> ImageData \<Rightarrow> error + unit" where
  "validateConfig cfg imageData =
     (if offsetX cfg < 0 \<or> offsetY cfg < 0 then Inl InvalidOffset
      else if windowWidth cfg \<le> 0 \<or> windowHeight cfg \<le> 0 then Inl InvalidWindowSize
      else if rows cfg \<le> 0 \<or> columns cfg \<le> 0 then Inl InvalidMatrixSize
      else if jadd (offsetX cfg) (windowWidth cfg) > of_nat (width imageData)
            \<or> jadd (offsetY cfg) (windowHeight cfg) > of_nat (height imageData)
           then Inl WindowOutOfBounds
      else if (case threshold cfg of None \<Rightarrow> False | Some t \<Rightarrow> t < 0 \<or> t > 255)
           then Inl InvalidThreshold
      else Inr ())"

definition thresholdOf :: "FrameAnalyzerConfig \<Rightarrow> number" where
  \<comment> \<open>the destructuring default \<^verbatim>\<open>threshold = 128\<close>\<close>
  "thresholdOf cfg = nullish (threshold cfg) 128"

definition cellWidth :: "FrameAnalyzerConfig \<Rightarrow> number" where
  "cellWidth cfg = jdiv (windowWidth cfg) (columns cfg)"

definition cellHeight :: "FrameAnalyzerConfig \<Rightarrow> number" where
  "cellHeight cfg = jdiv (windowHeight cfg) (rows cfg)"

definition sampleX :: "FrameAnalyzerConfig \<Rightarrow> nat \<Rightarrow> number" where
  "sampleX cfg col = jadd (offsetX cfg) (jmul (jadd (of_nat col) (1 / 2)) (cellWidth cfg))"

definition sampleY :: "FrameAnalyzerConfig \<Rightarrow> nat \<Rightarrow> number" where
  "sampleY cfg row = jadd (offsetY cfg) (jmul (jadd (of_nat row) (1 / 2)) (cellHeight cfg))"

definition cell :: "ImageData \<Rightarrow> FrameAnalyzerConfig \<Rightarrow> nat \<Rightarrow> nat \<Rightarrow> bool" where
  \<comment> \<open>the body of the inner loop: the value written to \<^verbatim>\<open>matrix[row][col]\<close>\<close>
  "cell imageData cfg row col =
     (case getPixelAt imageData (sampleX cfg col) (sampleY cfg row) of
        (r, g, b) \<Rightarrow> calculateBrightness r g b \<ge> thresholdOf cfg)"

definition toLength :: "number \<Rightarrow> nat" where
  \<comment> \<open>the length \<^verbatim>\<open>Array.from({ length: x }, ...)\<close> allocates: \<open>x\<close> truncated, at least 0\<close>
  "toLength x = nat \<lfloor>x\<rfloor>"

definition array_set :: "bool list \<Rightarrow> nat \<Rightarrow> bool \<Rightarrow> bool list" where
  \<comment> \<open>\<^verbatim>\<open>a[i] = v\<close> on an array: a write at the length appends. The loops below never
      write beyond the length, where JavaScript would leave holes.\<close>
  "array_set a i v = (if i < length a then a[i := v] else a @ replicate (i - length a) False @ [v])"

function colLoop :: "ImageData \<Rightarrow> FrameAnalyzerConfig \<Rightarrow> nat \<Rightarrow> nat \<Rightarrow> bool list \<Rightarrow> bool list" where
  "colLoop imageData cfg row col a =
     (if of_nat col < columns cfg
      then colLoop imageData cfg row (Suc col) (array_set a col (cell imageData cfg row col))
      else a)"
  by pat_completeness auto
termination
proof (relation "measure (\<lambda>(imageData, cfg, row, col, a). nat \<lceil>columns cfg\<rceil> - col)")
  show "wf (measure (\<lambda>(imageData, cfg, row, col, a). nat \<lceil>columns cfg\<rceil> - col))"
    by simp
next
  fix imageData :: ImageData and cfg :: FrameAnalyzerConfig and row col :: nat and a :: "bool list"
  assume "of_nat col < columns cfg"
  then have "int col < \<lceil>columns cfg\<rceil>"
    by (simp add: less_ceiling_iff)
  then show "((imageData, cfg, row, Suc col, array_set a col (cell imageData cfg row col)),
              (imageData, cfg, row, col, a))
             \<in> measure (\<lambda>(imageData, cfg, row, col, a). nat \<lceil>columns cfg\<rceil> - col)"
    by simp
qed

declare colLoop.simps [simp del]

text \<open>
  The outer loop. \<^verbatim>\<open>matrix[row]\<close> is \<^verbatim>\<open>undefined\<close> when \<open>row\<close> is not below the length
  of the matrix; the first write of the inner loop then throws.
\<close>

function rowLoop :: "ImageData \<Rightarrow> FrameAnalyzerConfig \<Rightarrow> nat \<Rightarrow> bool list list \<Rightarrow> error + bool list list" where
  "rowLoop imageData cfg row m =
     (if of_nat row < rows cfg
      then (if row < length m
            then rowLoop imageData cfg (Suc row) (m[row := colLoop imageData cfg row 0 (m ! row)])
            else if 0 < columns cfg then Inl TypeError
            else rowLoop imageData cfg (Suc row) m)
      else Inr m)"
  by pat_completeness auto
termination
proof (relation "measure (\<lambda>(imageData, cfg, row, m). nat \<lceil>rows cfg\<rceil> - row)")
  show "wf (measure (\<lambda>(imageData, cfg, row, m). nat \<lceil>rows cfg\<rceil> - row))"
    by simp
next
  fix imageData :: ImageData and cfg :: FrameAnalyzerConfig and row :: nat and m :: "bool list list"
  assume "of_nat row < rows cfg"
  then have "int row < \<lceil>rows cfg\<rceil>"
    by (simp add: less_ceiling_iff)
  then show "((imageData, cfg, Suc row, m[row := colLoop imageData cfg row 0 (m ! row)]),
              (imageData, cfg, row, m))
             \<in> measure (\<lambda>(imageData, cfg, row, m). nat \<lceil>rows cfg\<rceil> - row)"
    by simp
next
  fix imageData :: ImageData and cfg :: FrameAnalyzerConfig and row :: nat and m :: "bool list list"
  assume "of_nat row < rows cfg"
  then have "int row < \<lceil>rows cfg\<rceil>"
    by (simp add: less_ceiling_iff)
  then show "((imageData, cfg, Suc row, m), (imageData, cfg, row, m))
             \<in> measure (\<lambda>(imageData, cfg, row, m). nat \<lceil>rows cfg\<rceil> - row)"
    by simp
qed

declare rowLoop.simps [simp del]

text \<open>
  \<open>now\<close> is the value \<^verbatim>\<open>Date.now()\<close> returns when the result is built.
\<close>

definition analyzeFrame :: "number \<Rightarrow> ImageData \<Rightarrow> FrameAnalyzerConfig \<Rightarrow> error + FrameAnalysisResult" where
  "analyzeFrame now imageData cfg =
     (case validateConfig cfg imageData of
        Inl e \<Rightarrow> Inl e
      | Inr _ \<Rightarrow>
          (case rowLoop imageData cfg 0
                  (replicate (toLength (rows cfg)) (replicate (toLength (columns cfg)) False)) of
             Inl e \<Rightarrow> Inl e
           | Inr m \<Rightarrow> Inr \<lparr>matrix = m, config = cfg, timestamp = now\<rparr>))"

definition createDefaultConfig :: "number \<Rightarrow> number \<Rightarrow> FrameAnalyzerConfig" where
  "createDefaultConfig imageWidth imageHeight =
     \<lparr>offsetX = 236, offsetY = 112, windowWidth = 168, windowHeight = 224,
      rows = 64, columns = 42, threshold = Some 128\<rparr>"

section \<open>The validation rules as the specification lists them\<close>



section \<open>Notions of the specification\<close>



section \<open>Auxiliary facts\<close>

lemma of_nat_less_ceiling: "(of_nat n < (x::rat)) = (n < nat \<lceil>x\<rceil>)"
proof -
  have "(of_nat n < x) = (of_int (int n) < x)"
    by simp
  also have "\<dots> = (int n < \<lceil>x\<rceil>)"
    by (simp only: less_ceiling_iff)
  also have "\<dots> = (n < nat \<lceil>x\<rceil>)"
    by linarith
  finally show ?thesis .
qed

lemma array_set_take:
  "col \<le> length a \<Longrightarrow> take (Suc col) (array_set a col v) = take col a @ [v]"
  by (auto simp: array_set_def take_Suc_conv_app_nth)

lemma length_array_set:
  "col \<le> length a \<Longrightarrow> length (array_set a col v) = max (length a) (Suc col)"
  by (auto simp: array_set_def)

lemma colLoop_eq:
  "col \<le> length a \<Longrightarrow> length a \<le> nat \<lceil>columns cfg\<rceil> \<Longrightarrow>
   colLoop imageData cfg row col a
     = take col a @ map (cell imageData cfg row) [col..<nat \<lceil>columns cfg\<rceil>]"
proof (induction imageData cfg row col a rule: colLoop.induct)
  case (1 imageData cfg row col a)
  show ?case
  proof (cases "of_nat col < columns cfg")
    case True
    then have lt: "col < nat \<lceil>columns cfg\<rceil>"
      by (simp only: of_nat_less_ceiling)
    let ?a = "array_set a col (cell imageData cfg row col)"
    have "colLoop imageData cfg row col a = colLoop imageData cfg row (Suc col) ?a"
      using True by (subst colLoop.simps) simp
    also have "\<dots> = take (Suc col) ?a @ map (cell imageData cfg row) [Suc col..<nat \<lceil>columns cfg\<rceil>]"
      using "1.IH" [OF True] "1.prems" lt by (simp add: length_array_set)
    also have "\<dots> = take col a @ map (cell imageData cfg row) [col..<nat \<lceil>columns cfg\<rceil>]"
      using "1.prems" lt by (simp add: array_set_take upt_conv_Cons)
    finally show ?thesis .
  next
    case False
    then have "nat \<lceil>columns cfg\<rceil> \<le> col"
      by (simp only: of_nat_less_ceiling not_less)
    with "1.prems" have "length a = col" "nat \<lceil>columns cfg\<rceil> = col"
      by simp_all
    then show ?thesis
      using False by (subst colLoop.simps) simp
  qed
qed

lemma rowLoop_ok:
  "length m = nat \<lceil>rows cfg\<rceil> \<Longrightarrow> row \<le> length m \<Longrightarrow>
   \<forall>a\<in>set m. length a \<le> nat \<lceil>columns cfg\<rceil> \<Longrightarrow>
   rowLoop imageData cfg row m
     = Inr (take row m @ map (\<lambda>r. map (cell imageData cfg r) [0..<nat \<lceil>columns cfg\<rceil>])
                            [row..<nat \<lceil>rows cfg\<rceil>])"
proof (induction imageData cfg row m rule: rowLoop.induct)
  case (1 imageData cfg row m)
  let ?N = "nat \<lceil>columns cfg\<rceil>"
  let ?f = "\<lambda>r. map (cell imageData cfg r) [0..<?N]"
  show ?case
  proof (cases "of_nat row < rows cfg")
    case True
    then have lt: "row < length m"
      using "1.prems"(1) by (simp only: of_nat_less_ceiling)
    then have "m ! row \<in> set m"
      by simp
    then have "length (m ! row) \<le> ?N"
      using "1.prems"(3) by blast
    then have new: "colLoop imageData cfg row 0 (m ! row) = ?f row"
      by (simp add: colLoop_eq)
    let ?m = "m[row := ?f row]"
    have small: "\<forall>a\<in>set ?m. length a \<le> ?N"
    proof
      fix a assume "a \<in> set ?m"
      then have "a \<in> insert (?f row) (set m)"
        using set_update_subset_insert by fastforce
      then show "length a \<le> ?N"
        using "1.prems"(3) by auto
    qed
    have "rowLoop imageData cfg row m = rowLoop imageData cfg (Suc row) ?m"
      using True lt new by (subst rowLoop.simps) simp
    also have "\<dots> = Inr (take (Suc row) ?m @ map ?f [Suc row..<nat \<lceil>rows cfg\<rceil>])"
      using "1.IH"(1) [OF True lt] "1.prems"(1) lt small by (simp add: new)
    also have "take (Suc row) ?m = take row m @ [?f row]"
      using lt by (simp add: take_Suc_conv_app_nth)
    finally show ?thesis
      using lt "1.prems"(1) by (simp add: upt_conv_Cons)
  next
    case False
    then have "nat \<lceil>rows cfg\<rceil> \<le> row"
      by (simp only: of_nat_less_ceiling not_less)
    with "1.prems" have "length m = row" "nat \<lceil>rows cfg\<rceil> = row"
      by simp_all
    then show ?thesis
      using False by (subst rowLoop.simps) simp
  qed
qed



lemma Ints_floor_ceiling: "(x::rat) \<in> \<int> \<Longrightarrow> \<lfloor>x\<rfloor> = \<lceil>x\<rceil>"
  by (auto elim!: Ints_cases)


lemma analyzeFrame_integer_rows:
  assumes ok: "validateConfig cfg imageData = Inr ()" and int: "rows cfg \<in> \<int>"
  shows "analyzeFrame now imageData cfg
           = Inr \<lparr>matrix = map (\<lambda>r. map (cell imageData cfg r) [0..<nat \<lceil>columns cfg\<rceil>])
                                 [0..<nat \<lfloor>rows cfg\<rfloor>],
                   config = cfg, timestamp = now\<rparr>"
proof -
  let ?m = "replicate (toLength (rows cfg)) (replicate (toLength (columns cfg)) False)"
  have len: "length ?m = nat \<lceil>rows cfg\<rceil>"
    using int by (simp add: toLength_def Ints_floor_ceiling)
  have "\<lfloor>columns cfg\<rfloor> \<le> \<lceil>columns cfg\<rceil>"
    by (rule floor_le_ceiling)
  then have "toLength (columns cfg) \<le> nat \<lceil>columns cfg\<rceil>"
    unfolding toLength_def by (rule nat_mono)
  then have small: "\<forall>a\<in>set ?m. length a \<le> nat \<lceil>columns cfg\<rceil>"
    by simp
  have "rowLoop imageData cfg 0 ?m
          = Inr (map (\<lambda>r. map (cell imageData cfg r) [0..<nat \<lceil>columns cfg\<rceil>])
                     [0..<nat \<lceil>rows cfg\<rceil>])"
    using rowLoop_ok [OF len _ small, of 0 imageData] by simp
  then show ?thesis
    using ok int by (simp add: analyzeFrame_def Ints_floor_ceiling)
qed








lemma jadd_236_168: "jadd 236 168 = 404"
  by code_simp

lemma jadd_112_224: "jadd 112 224 = 336"
  by code_simp

subsection \<open>Rounding\<close>


lemma ilog2_less:
  assumes "0 < x"
  shows "x < 2 powi (ilog2 x + 1)"
proof -
  obtain p q where pq: "quotient_of x = (p, q)"
    by fastforce
  then have q: "0 < q" and x: "x = of_int p / of_int q"
    using quotient_of_denom_pos quotient_of_div by auto
  then have p: "0 < p"
    using assms by (simp add: zero_less_divide_iff)
  define k where "k = bitlen p - bitlen q"
  show ?thesis
  proof (cases "2 powi k \<le> x")
    case True
    then have eq: "ilog2 x + 1 = bitlen p - (bitlen q - 1)"
      by (simp add: ilog2_def pq k_def Let_def)
    have bp: "0 \<le> bitlen p"
      by (rule bitlen_nonneg)
    have bq: "0 \<le> bitlen q - 1"
      using q by (simp add: bitlen_alt_def)
    have "p < 2 ^ nat (bitlen p)"
      using bitlen_bounds [OF p] ..
    then have "(of_int p :: rat) < of_int (2 ^ nat (bitlen p))"
      by (simp only: of_int_less_iff)
    then have num: "(of_int p :: rat) < 2 powi (bitlen p)"
      using bp by (simp add: power_int_def)
    have "2 ^ nat (bitlen q - 1) \<le> q"
      using bitlen_bounds [OF q] ..
    then have "(of_int (2 ^ nat (bitlen q - 1)) :: rat) \<le> of_int q"
      by (simp only: of_int_le_iff)
    then have den: "2 powi (bitlen q - 1) \<le> (of_int q :: rat)"
      using bq by (simp add: power_int_def)
    have "x < 2 powi (bitlen p) / 2 powi (bitlen q - 1)"
      unfolding x using num den p by (intro frac_less) simp_all
    also have "\<dots> = 2 powi (ilog2 x + 1)"
      unfolding eq by (rule power_int_diff [symmetric]) simp
    finally show ?thesis .
  next
    case False
    then show ?thesis
      by (simp add: ilog2_def pq k_def Let_def)
  qed
qed













subsection \<open>Pixel access\<close>












subsection \<open>Colour channels\<close>


lemma validateConfig_data [simp]:
  "validateConfig cfg (imageData\<lparr>data := d\<rparr>) = validateConfig cfg imageData"
  by (simp add: validateConfig_def)



section \<open>Claims\<close>








text \<open>
  Claim C4 asks that the default configuration for a \<open>width \<times> height\<close> buffer has offsets 0
  and a window of the whole buffer. \<open>createDefaultConfig\<close> does not look at its arguments:
  for 640 by 480 it returns the window of size 168 by 224 at offset (236, 112).
\<close>

theorem createDefaultConfig_ignores_dimensions:
  "createDefaultConfig 640 480
     = \<lparr>offsetX = 236, offsetY = 112, windowWidth = 168, windowHeight = 224,
        rows = 64, columns = 42, threshold = Some 128\<rparr>
   \<and> offsetX (createDefaultConfig 640 480) \<noteq> 0
   \<and> offsetY (createDefaultConfig 640 480) \<noteq> 0
   \<and> windowWidth (createDefaultConfig 640 480) \<noteq> 640
   \<and> windowHeight (createDefaultConfig 640 480) \<noteq> 480"
  by (simp add: createDefaultConfig_def)

text \<open>
  Claim C5. The configuration \<open>createDefaultConfig 640 480\<close> passes all five validation
  checks against every buffer of width 640 and height 480, and \<open>analyzeFrame\<close> on such a
  buffer with that configuration returns a result.
\<close>

theorem default_config_valid:
  assumes "width imageData = 640" and "height imageData = 480"
  shows "validateConfig (createDefaultConfig 640 480) imageData = Inr ()
         \<and> (\<exists>res. analyzeFrame now imageData (createDefaultConfig 640 480) = Inr res)"
proof -
  have ok: "validateConfig (createDefaultConfig 640 480) imageData = Inr ()"
    using assms by (simp add: validateConfig_def createDefaultConfig_def jadd_236_168 jadd_112_224)
  have "rows (createDefaultConfig 640 480) \<in> \<int>"
    by (simp add: createDefaultConfig_def)
  from analyzeFrame_integer_rows [OF ok this, of now] ok show ?thesis
    by simp
qed

theorem default_config_valid_witness:
  "validateConfig (createDefaultConfig 640 480)
     \<lparr>width = 640, height = 480, data = replicate (640 * 480 * 4) 0\<rparr> = Inr ()
   \<and> (\<exists>res. analyzeFrame 0 \<lparr>width = 640, height = 480, data = replicate (640 * 480 * 4) 0\<rparr>
               (createDefaultConfig 640 480) = Inr res)"
  using default_config_valid [of "\<lparr>width = 640, height = 480, data = replicate (640 * 480 * 4) 0\<rparr>" 0]
  by simp













end
